theory Spec2Isabelle
  imports Main "HOL-Library.Sublist"
begin

section \<open>The gold signal service (main.py)\<close>

text \<open>
  The service is one Python module: a hardcoded signal, a notifier that a background
  scheduler calls every hour, and three read-only routes. The module's globals
  (\<open>BOT_TOKEN\<close>, \<open>CHAT_ID\<close>, \<open>bot\<close>, \<open>scheduler\<close>) are the process state; what the
  code sends to the outside (log lines, messages) is returned as a list of events.
  Strings are byte strings: the one non-ASCII literal of the page is held in its
  UTF-8 encoding, as the source file stores it.
\<close>

subsection \<open>Python values\<close>

text \<open>
  An exception is either an instance of \<open>Exception\<close> (the argument is \<open>str(e)\<close>) or
  an instance of \<open>BaseException\<close> outside \<open>Exception\<close> (\<open>KeyboardInterrupt\<close>,
  \<open>SystemExit\<close>): the clause \<open>except Exception\<close> catches the first kind only.
\<close>

datatype exn = Exception string | BaseException string

text \<open>Truthiness of \<open>os.environ.get(...)\<close>: \<open>None\<close> and the empty string are false.\<close>

fun truthy_str :: "string option \<Rightarrow> bool" where
  "truthy_str None = False"
| "truthy_str (Some v) = (v \<noteq> [])"

text \<open>\<open>str\<close> of an integer, as an f-string formats it.\<close>

definition digit_char :: "nat \<Rightarrow> char" where
  "digit_char d = char_of (48 + d)"

function str_nat :: "nat \<Rightarrow> string" where
  "str_nat n = (if n < 10 then [digit_char n] else str_nat (n div 10) @ [digit_char (n mod 10)])"
  by pat_completeness auto
termination
  by (relation "measure id") auto

declare str_nat.simps [simp del]

definition str_int :: "int \<Rightarrow> string" where
  "str_int i = (if i < 0 then CHR ''-'' # str_nat (nat (- i)) else str_nat (nat i))"

subsection \<open>The signal provider\<close>

text \<open>The dict that \<open>gold_signal\<close> returns has exactly the keys bias, confidence, reasons.\<close>

record signal =
  bias :: string
  confidence :: int
  reasons :: "string list"

definition gold_signal :: "unit \<Rightarrow> signal" where
  "gold_signal u =
     \<lparr> bias = ''BUY'',
       confidence = 70,
       reasons = [''Inflation high'',
                  ''Central banks buying gold'',
                  ''ETF inflows positive'',
                  ''Geopolitical risk rising''] \<rparr>"

subsection \<open>What the process sends to the outside\<close>

datatype level = INFO | WARNING | ERROR

datatype Bot = Bot (token: string)

text \<open>
  An event is a call to the logger, a call the notifier makes to the signal provider,
  or a call to \<open>bot.send_message(chat_id=..., text=...)\<close>.
\<close>

datatype event =
    Log level string
  | Call_gold_signal
  | Call_send_message Bot "string option" string

text \<open>
  The messaging client is outside the repository: its \<open>send_message\<close> either returns
  (\<open>None\<close>) or raises (\<open>Some e\<close>), as the environment decides for the given bot,
  chat id and text.
\<close>

type_synonym client = "Bot \<Rightarrow> string option \<Rightarrow> string \<Rightarrow> exn option"

text \<open>A \<open>Bot\<close> object defines neither \<open>__bool__\<close> nor \<open>__len__\<close>: only \<open>None\<close> is false.\<close>

fun truthy_bot :: "Bot option \<Rightarrow> bool" where
  "truthy_bot None = False"
| "truthy_bot (Some b) = True"

subsection \<open>The scheduler\<close>

text \<open>
  \<open>BackgroundScheduler\<close> is APScheduler's class; the part of it that the module uses is
  its run state and its job list. \<open>start\<close> raises on a scheduler that is not stopped,
  \<open>shutdown\<close> raises on a stopped one, and \<open>running\<close> is true unless the state is
  \<open>STATE_STOPPED\<close>.
\<close>

datatype run_state = STATE_STOPPED | STATE_RUNNING | STATE_PAUSED

record job =
  func :: string
  trigger :: string
  hours :: nat

record BackgroundScheduler =
  state :: run_state
  jobs :: "job list"

definition new_scheduler :: "unit \<Rightarrow> BackgroundScheduler" where
  "new_scheduler u = \<lparr> state = STATE_STOPPED, jobs = [] \<rparr>"

definition add_job :: "BackgroundScheduler \<Rightarrow> job \<Rightarrow> BackgroundScheduler" where
  "add_job sch j = sch \<lparr> jobs := jobs sch @ [j] \<rparr>"

definition start :: "BackgroundScheduler \<Rightarrow> exn + BackgroundScheduler" where
  "start sch =
     (if state sch = STATE_STOPPED then Inr (sch \<lparr> state := STATE_RUNNING \<rparr>)
      else Inl (Exception ''Scheduler is already running''))"

definition shutdown :: "BackgroundScheduler \<Rightarrow> exn + BackgroundScheduler" where
  "shutdown sch =
     (if state sch = STATE_STOPPED then Inl (Exception ''Scheduler is not running'')
      else Inr (sch \<lparr> state := STATE_STOPPED \<rparr>))"

definition running :: "BackgroundScheduler \<Rightarrow> bool" where
  "running sch = (state sch \<noteq> STATE_STOPPED)"

subsection \<open>Module state and start-up\<close>

record proc =
  BOT_TOKEN :: "string option"
  CHAT_ID :: "string option"
  bot_inst :: "Bot option"
  scheduler :: BackgroundScheduler

text \<open>
  The module's top level (lines 15 to 23 and 58 to 62): read the two variables from the
  environment, build the bot only for a truthy token, create the scheduler, register
  the hourly job and start it.
\<close>

definition module_init :: "(string \<rightharpoonup> string) \<Rightarrow> exn + (event list \<times> proc)" where
  "module_init environ =
     (let tok = environ ''BOT_TOKEN'';
          cid = environ ''CHAT_ID'';
          b = (if truthy_str tok then map_option Bot tok else None);
          evs = (if truthy_str tok then []
                 else [Log WARNING ''BOT_TOKEN not set. Telegram messages will not be sent.'']);
          sch = add_job (new_scheduler ())
                  \<lparr> func = ''send_signal'', trigger = ''interval'', hours = 1 \<rparr>
      in case start sch of
           Inl e \<Rightarrow> Inl e
         | Inr sch' \<Rightarrow>
             Inr (evs @ [Log INFO ''Scheduler started - will send signals every hour''],
                  \<lparr> BOT_TOKEN = tok, CHAT_ID = cid, bot_inst = b, scheduler = sch' \<rparr>))"

subsection \<open>The notifier\<close>

text \<open>The text that \<open>send_signal\<close> builds from the signal \<open>s\<close> (lines 46 to 51).\<close>

definition format_message :: "signal \<Rightarrow> string" where
  "format_message s =
     (let msg = ''GOLD SIGNAL\<newline>\<newline>'';
          msg = msg @ ''Bias: '' @ bias s @ ''\<newline>'';
          msg = msg @ ''Confidence: '' @ str_int (confidence s) @ ''%\<newline>\<newline>'';
          msg = msg @ ''Reasons:\<newline>''
      in foldl (\<lambda>msg r. msg @ ''- '' @ r @ ''\<newline>'') msg (reasons s))"

text \<open>
  The body of the \<open>try\<close> block: the result is \<open>Inl e\<close> when it raises \<open>e\<close>. Calling
  \<open>send_message\<close> on \<open>None\<close> would be an \<open>AttributeError\<close>.
\<close>

definition try_body :: "proc \<Rightarrow> client \<Rightarrow> event list \<times> (exn + unit)" where
  "try_body st send =
     (let s = gold_signal ();
          msg = format_message s
      in case bot_inst st of
           None \<Rightarrow>
             ([Call_gold_signal],
              Inl (Exception (CHR 0x27 # ''NoneType'' @ CHR 0x27 # '' object has no attribute ''
                              @ CHR 0x27 # ''send_message'' @ [CHR 0x27])))
         | Some b \<Rightarrow>
             (case send b (CHAT_ID st) msg of
                Some e \<Rightarrow> ([Call_gold_signal, Call_send_message b (CHAT_ID st) msg], Inl e)
              | None \<Rightarrow>
                  ([Call_gold_signal, Call_send_message b (CHAT_ID st) msg,
                    Log INFO ''Signal sent successfully''], Inr ())))"

definition send_signal :: "proc \<Rightarrow> client \<Rightarrow> event list \<times> (exn + unit)" where
  "send_signal st send =
     (if \<not> truthy_bot (bot_inst st) \<or> \<not> truthy_str (CHAT_ID st) then
        ([Log WARNING ''Telegram bot or CHAT_ID not configured''], Inr ())
      else
        (case try_body st send of
           (evs, Inr u) \<Rightarrow> (evs, Inr ())
         | (evs, Inl (Exception m)) \<Rightarrow>
             (evs @ [Log ERROR (''Error sending message: '' @ m)], Inr ())
         | (evs, Inl (BaseException m)) \<Rightarrow> (evs, Inl (BaseException m))))"

subsection \<open>The dashboard\<close>

text \<open>
  The literal text of the page's f-string (lines 72 to 188), cut at its placeholders,
  with \<open>{{\<close> and \<open>}}\<close> read as braces. \<open>bullet\<close> is the three-character literal of
  line 141 in UTF-8.
\<close>

definition page_1 :: string where
  \<open>page_1 = ''
    <!DOCTYPE html>
    <html>
    <head>
        <title>Gold AI Signal</title>
        <meta name="viewport" content="width=device-width, initial-scale=1">
        <style>
            body {
                font-family: Arial, sans-serif;
                max-width: 600px;
                margin: 0 auto;
                padding: 20px;
                background: linear-gradient(135deg, #667eea 0%, #764ba2 100%);
                min-height: 100vh;
                color: white;
            }
            .card {
                background: rgba(255, 255, 255, 0.95);
                border-radius: 20px;
                padding: 30px;
                box-shadow: 0 10px 30px rgba(0,0,0,0.2);
                color: #333;
            }
            h1 {
                text-align: center;
                color: #333;
                margin-top: 0;
                border-bottom: 2px solid #f0f0f0;
                padding-bottom: 20px;
            }
            .bias {
                font-size: 48px;
                font-weight: bold;
                text-align: center;
                margin: 20px 0;
                padding: 20px;
                border-radius: 10px;
                color: white;
                background-color: ''\<close>

definition page_2 :: string where
  \<open>page_2 = '';
            }
            .confidence {
                text-align: center;
                font-size: 24px;
                margin: 20px 0;
                color: #666;
            }
            .reasons {
                background: #f8f9fa;
                border-radius: 10px;
                padding: 20px;
                margin-top: 20px;
            }
            .reasons h3 {
                margin-top: 0;
                color: #333;
            }
            .reasons ul {
                list-style-type: none;
                padding: 0;
            }
            .reasons li {
                padding: 10px;
                margin: 5px 0;
                background: white;
                border-radius: 5px;
                box-shadow: 0 2px 5px rgba(0,0,0,0.05);
                color: #555;
            }
            .reasons li:before {
                content: "''\<close>

definition page_3 :: string where
  \<open>page_3 = ''";
                color: ''\<close>

definition page_4 :: string where
  \<open>page_4 = '';
                font-weight: bold;
                margin-right: 10px;
            }
            .footer {
                text-align: center;
                margin-top: 30px;
                font-size: 14px;
                color: rgba(255,255,255,0.8);
            }
            .status {
                text-align: center;
                margin-top: 20px;
                padding: 10px;
                background: rgba(255,255,255,0.2);
                border-radius: 5px;
                font-size: 14px;
            }
        </style>
    </head>
    <body>
        <div class="card">
            <h1>Gold AI Signal</h1>
            <div class="bias">
                ''\<close>

definition page_5 :: string where
  \<open>page_5 = ''
            </div>
            <div class="confidence">
                Confidence: ''\<close>

definition page_6 :: string where
  \<open>page_6 = ''%
            </div>
            <div class="reasons">
                <h3>Analysis Reasons:</h3>
                <ul>
                    ''\<close>

definition page_7 :: string where
  \<open>page_7 = ''
                </ul>
            </div>
        </div>
        <div class="status">
            Telegram alerts: ''\<close>

definition page_8 :: string where
  \<open>page_8 = ''
            <br>
            Updates every hour
        </div>
        <div class="footer">
            Powered by FastAPI on Render
        </div>
    </body>
    </html>
    ''\<close>

definition bullet :: string where
  "bullet = [CHR 0xC3, CHR 0xA2, CHR 0xE2, CHR 0x82, CHR 0xAC, CHR 0xC2, CHR 0xA2]"

text \<open>Line 70: the colour of the page, chosen from the bias.\<close>

definition color_of :: "signal \<Rightarrow> string" where
  "color_of s =
     (if bias s = ''BUY'' then ''green'' else if bias s = ''SELL'' then ''red'' else ''orange'')"

text \<open>The f-string, with the signal and the two globals it reads as arguments.\<close>

definition home_html :: "signal \<Rightarrow> Bot option \<Rightarrow> string option \<Rightarrow> string" where
  "home_html s b cid =
     (let color = color_of s
      in page_1 @ color @ page_2 @ bullet @ page_3 @ color @ page_4
         @ bias s @ page_5
         @ str_int (confidence s) @ page_6
         @ concat (map (\<lambda>r. ''<li>'' @ r @ ''</li>'') (reasons s)) @ page_7
         @ (if truthy_bot b \<and> truthy_str cid then ''Active'' else ''Not configured'') @ page_8)"

definition home :: "proc \<Rightarrow> string" where
  "home st = (let s = gold_signal () in home_html s (bot_inst st) (CHAT_ID st))"

subsection \<open>The JSON routes\<close>

definition get_signal :: "proc \<Rightarrow> signal" where
  "get_signal st = gold_signal ()"

record health =
  status :: string
  telegram_configured :: bool
  scheduler_running :: bool

definition health_check :: "proc \<Rightarrow> health" where
  "health_check st =
     \<lparr> status = ''healthy'',
       telegram_configured = (truthy_bot (bot_inst st) \<and> truthy_str (CHAT_ID st)),
       scheduler_running = running (scheduler st) \<rparr>"

definition shutdown_event :: "proc \<Rightarrow> event list \<times> (exn + proc)" where
  "shutdown_event st =
     (case shutdown (scheduler st) of
        Inl e \<Rightarrow> ([], Inl e)
      | Inr sch \<Rightarrow> ([Log INFO ''Scheduler stopped''], Inr (st \<lparr> scheduler := sch \<rparr>)))"

subsection \<open>Serving requests and the life of the process\<close>

text \<open>
  The three \<open>@app.get\<close> routes. A handler that returns is answered with status 200 and
  the returned value as body; no handler writes a global, so the state is returned as
  it was.
\<close>

datatype route = Root | Api_signal | Health

datatype body = Html_body string | Signal_body signal | Health_body health

record response =
  status_code :: nat
  content :: body

definition serve :: "proc \<Rightarrow> route \<Rightarrow> response \<times> proc" where
  "serve st r =
     (case r of
        Root \<Rightarrow> (\<lparr> status_code = 200, content = Html_body (home st) \<rparr>, st)
      | Api_signal \<Rightarrow> (\<lparr> status_code = 200, content = Signal_body (get_signal st) \<rparr>, st)
      | Health \<Rightarrow> (\<lparr> status_code = 200, content = Health_body (health_check st) \<rparr>, st))"

text \<open>
  After start-up the process handles requests, hourly ticks of the scheduler (each with
  the client's behaviour at that time) and the shutdown event. A stopped scheduler runs
  no job; an exception that leaves a handler or a job does not change the globals.
\<close>

datatype action = Request route | Tick client | Shutdown

fun step :: "proc \<Rightarrow> action \<Rightarrow> event list \<times> proc" where
  "step st (Request r) = ([], snd (serve st r))"
| "step st (Tick send) =
     (if running (scheduler st) then (fst (send_signal st send), st) else ([], st))"
| "step st Shutdown =
     (case shutdown_event st of
        (evs, Inl e) \<Rightarrow> (evs, st)
      | (evs, Inr st') \<Rightarrow> (evs, st'))"

fun run :: "proc \<Rightarrow> action list \<Rightarrow> event list \<times> proc" where
  "run st [] = ([], st)"
| "run st (a # as) =
     (case step st a of (evs, st') \<Rightarrow>
        (case run st' as of (evs', st'') \<Rightarrow> (evs @ evs', st'')))"

text \<open>
  The process started in the environment \<open>environ\<close> and taken through the actions
  \<open>acts\<close>: the events it has produced and its globals, or the exception that left the
  module's top level.
\<close>

definition process :: "(string \<rightharpoonup> string) \<Rightarrow> action list \<Rightarrow> exn + (event list \<times> proc)" where
  "process environ acts =
     (case module_init environ of
        Inl e \<Rightarrow> Inl e
      | Inr (evs, st) \<Rightarrow> (case run st acts of (evs', st') \<Rightarrow> Inr (evs @ evs', st')))"

text \<open>The answer to a request that arrives after these actions.\<close>

definition request_after :: "(string \<rightharpoonup> string) \<Rightarrow> action list \<Rightarrow> route \<Rightarrow> exn + response" where
  "request_after environ acts r =
     (case process environ acts of
        Inl e \<Rightarrow> Inl e
      | Inr (evs, st) \<Rightarrow> Inr (fst (serve st r)))"

subsection \<open>A client that is interrupted\<close>


subsection \<open>Message layouts\<close>

text \<open>A text given by its lines, each ended by a newline.\<close>

definition unlines :: "string list \<Rightarrow> string" where
  "unlines ls = concat (map (\<lambda>l. l @ ''\<newline>'') ls)"

text \<open>
  The layout as the specification words it: a title line, a bias line, a confidence
  line, a blank line, then one line per reason.
\<close>

definition spec_message_lines :: "string \<Rightarrow> signal \<Rightarrow> string list" where
  "spec_message_lines title s =
     [title, ''Bias: '' @ bias s, ''Confidence: '' @ str_int (confidence s) @ ''%'', []]
     @ map (\<lambda>r. ''- '' @ r) (reasons s)"

section \<open>Properties\<close>

subsection \<open>The signal provider\<close>

text \<open>
  C1: every call of \<open>gold_signal\<close> returns the record with bias BUY, confidence 70 and
  the four fixed reasons in their order, so any two calls return equal records.
\<close>

theorem gold_signal_constant:
  "gold_signal u =
     \<lparr> bias = ''BUY'', confidence = 70,
       reasons = [''Inflation high'', ''Central banks buying gold'',
                  ''ETF inflows positive'', ''Geopolitical risk rising''] \<rparr>
   \<and> gold_signal u = gold_signal v
   \<and> length (reasons (gold_signal u)) = 4"
  by (simp add: gold_signal_def)

subsection \<open>Start-up and the life of the process\<close>

lemma start_new:
  "start (add_job (new_scheduler ()) j) = Inr \<lparr> state = STATE_RUNNING, jobs = [j] \<rparr>"
  by (simp add: start_def add_job_def new_scheduler_def)

lemma module_init_eq:
  "module_init environ =
     Inr ((if truthy_str (environ ''BOT_TOKEN'') then []
           else [Log WARNING ''BOT_TOKEN not set. Telegram messages will not be sent.''])
          @ [Log INFO ''Scheduler started - will send signals every hour''],
          \<lparr> BOT_TOKEN = environ ''BOT_TOKEN'', CHAT_ID = environ ''CHAT_ID'',
            bot_inst = (if truthy_str (environ ''BOT_TOKEN'')
                        then map_option Bot (environ ''BOT_TOKEN'') else None),
            scheduler = \<lparr> state = STATE_RUNNING,
                          jobs = [\<lparr> func = ''send_signal'', trigger = ''interval'',
                                    hours = 1 \<rparr>] \<rparr> \<rparr>)"
  by (simp add: module_init_def start_new Let_def)

lemma serve_state: "snd (serve st r) = st"
  by (cases r) (simp_all add: serve_def)

lemma shutdown_event_cases:
  "shutdown_event st =
     (if running (scheduler st)
      then ([Log INFO ''Scheduler stopped''],
            Inr (st \<lparr> scheduler := (scheduler st) \<lparr> state := STATE_STOPPED \<rparr> \<rparr>))
      else ([], Inl (Exception ''Scheduler is not running'')))"
  by (simp add: shutdown_event_def shutdown_def running_def)

lemma step_config:
  "CHAT_ID (snd (step st a)) = CHAT_ID st \<and> bot_inst (snd (step st a)) = bot_inst st
   \<and> BOT_TOKEN (snd (step st a)) = BOT_TOKEN st"
  by (cases a) (simp_all add: serve_state shutdown_event_cases)

lemma step_running:
  "running (scheduler (snd (step st a))) = (running (scheduler st) \<and> a \<noteq> Shutdown)"
  by (cases a) (simp_all add: serve_state shutdown_event_cases running_def)

lemma run_snd_Cons: "snd (run st (a # as)) = snd (run (snd (step st a)) as)"
  by (simp split: prod.splits)

lemma run_config:
  "CHAT_ID (snd (run st acts)) = CHAT_ID st \<and> bot_inst (snd (run st acts)) = bot_inst st
   \<and> BOT_TOKEN (snd (run st acts)) = BOT_TOKEN st"
proof (induction acts arbitrary: st)
  case Nil
  show ?case by simp
next
  case (Cons a as)
  show ?case
    unfolding run_snd_Cons using Cons.IH [of "snd (step st a)"] step_config [of st a]
    by simp
qed

lemma run_running:
  "running (scheduler (snd (run st acts))) = (running (scheduler st) \<and> Shutdown \<notin> set acts)"
proof (induction acts arbitrary: st)
  case Nil
  show ?case by simp
next
  case (Cons a as)
  show ?case
    unfolding run_snd_Cons using Cons.IH [of "snd (step st a)"] step_running [of st a]
    by auto
qed

text \<open>
  Start-up never raises, and whatever happens afterwards the globals that hold the
  configuration keep the values start-up gave them, while the scheduler runs until
  the shutdown event.
\<close>

lemma process_state:
  "\<exists>evs st. process environ acts = Inr (evs, st)
     \<and> BOT_TOKEN st = environ ''BOT_TOKEN''
     \<and> CHAT_ID st = environ ''CHAT_ID''
     \<and> bot_inst st = (if truthy_str (environ ''BOT_TOKEN'')
                       then map_option Bot (environ ''BOT_TOKEN'') else None)
     \<and> running (scheduler st) = (Shutdown \<notin> set acts)"
proof -
  obtain evs0 st0 where init: "module_init environ = Inr (evs0, st0)"
    and st0: "BOT_TOKEN st0 = environ ''BOT_TOKEN''" "CHAT_ID st0 = environ ''CHAT_ID''"
      "bot_inst st0 = (if truthy_str (environ ''BOT_TOKEN'')
                       then map_option Bot (environ ''BOT_TOKEN'') else None)"
      "running (scheduler st0)"
    by (simp add: module_init_eq running_def)
  obtain evs1 st1 where r: "run st0 acts = (evs1, st1)"
    by (cases "run st0 acts")
  have "process environ acts = Inr (evs0 @ evs1, st1)"
    by (simp add: process_def init r)
  moreover have "st1 = snd (run st0 acts)"
    by (simp add: r)
  ultimately show ?thesis
    using st0 run_config [of st0 acts] run_running [of st0 acts] by simp
qed

lemma request_after_eq:
  "process environ acts = Inr (evs, st) \<Longrightarrow> request_after environ acts r = Inr (fst (serve st r))"
  by (simp add: request_after_def)

subsection \<open>The notifier's state dependence\<close>

lemma send_signal_unconfigured:
  "\<not> truthy_bot (bot_inst st) \<or> \<not> truthy_str (CHAT_ID st) \<Longrightarrow>
   send_signal st send = ([Log WARNING ''Telegram bot or CHAT_ID not configured''], Inr ())"
  by (simp add: send_signal_def)


text \<open>What \<open>except Exception\<close> does not catch leaves \<open>send_signal\<close>.\<close>

lemma send_signal_base_exception:
  "bot_inst st = Some b \<Longrightarrow> truthy_str (CHAT_ID st) \<Longrightarrow>
   send b (CHAT_ID st) (format_message (gold_signal ())) = Some (BaseException m) \<Longrightarrow>
   snd (send_signal st send) = Inl (BaseException m)"
  by (simp add: send_signal_def try_body_def Let_def)

lemma send_signal_first_events:
  "bot_inst st = Some b \<Longrightarrow> truthy_str (CHAT_ID st) \<Longrightarrow>
   \<exists>rest. fst (send_signal st send) =
     [Call_gold_signal, Call_send_message b (CHAT_ID st) (format_message (gold_signal ()))] @ rest"
  by (cases "send b (CHAT_ID st) (format_message (gold_signal ()))")
     (auto simp add: send_signal_def try_body_def Let_def split: exn.splits)

subsection \<open>The JSON route of the signal\<close>

text \<open>
  C2: whatever the environment and whatever happened before, a request to
  \<open>GET /api/signal\<close> is answered with status 200 and the record of \<open>gold_signal\<close> as
  its body.
\<close>

theorem api_signal_response:
  "request_after environ acts Api_signal =
     Inr \<lparr> status_code = 200, content = Signal_body (gold_signal ()) \<rparr>"
proof -
  obtain evs st where "process environ acts = Inr (evs, st)"
    using process_state [of environ acts] by blast
  then show ?thesis
    by (simp add: request_after_eq serve_def get_signal_def)
qed

subsection \<open>The notifier\<close>

text \<open>
  C3: when \<open>BOT_TOKEN\<close> or \<open>CHAT_ID\<close> is not in the environment, a call of
  \<open>send_signal\<close>, at any time in the life of the process, logs one warning and returns
  without an exception; it calls neither the signal provider nor the messaging client.
\<close>

theorem notifier_silent_when_unset:
  assumes "environ ''BOT_TOKEN'' = None \<or> environ ''CHAT_ID'' = None"
  shows "\<exists>evs st. process environ acts = Inr (evs, st)
           \<and> send_signal st send =
               ([Log WARNING ''Telegram bot or CHAT_ID not configured''], Inr ())"
proof -
  obtain evs st where p: "process environ acts = Inr (evs, st)"
    and c: "CHAT_ID st = environ ''CHAT_ID''"
    and b: "bot_inst st = (if truthy_str (environ ''BOT_TOKEN'')
                           then map_option Bot (environ ''BOT_TOKEN'') else None)"
    using process_state [of environ acts] by blast
  from assms b c have "\<not> truthy_bot (bot_inst st) \<or> \<not> truthy_str (CHAT_ID st)"
    by auto
  then show ?thesis
    using p send_signal_unconfigured by blast
qed

theorem notifier_silent_when_unset_witness:
  "[''BOT_TOKEN'' \<mapsto> ''123:abc''] ''CHAT_ID'' = None
   \<and> (\<exists>evs st. process [''BOT_TOKEN'' \<mapsto> ''123:abc''] [Request Root] = Inr (evs, st)
         \<and> send_signal st (\<lambda>b c t. None) =
             ([Log WARNING ''Telegram bot or CHAT_ID not configured''], Inr ()))"
  using notifier_silent_when_unset
    [of "[''BOT_TOKEN'' \<mapsto> ''123:abc'']" "[Request Root]" "\<lambda>b c t. None"]
  by simp




subsection \<open>The health route\<close>

text \<open>
  C5, as amended: a request to \<open>GET /health\<close> reports \<open>telegram_configured\<close> true
  exactly when \<open>BOT_TOKEN\<close> and \<open>CHAT_ID\<close> were both set to non-empty values when the
  process started, whatever happened since (deliveries that succeeded or failed
  included); it reports false when either is unset or empty.
\<close>

theorem health_telegram_configured:
  "\<exists>h. request_after environ acts Health =
         Inr \<lparr> status_code = 200, content = Health_body h \<rparr>
     \<and> telegram_configured h =
         ((\<exists>t. environ ''BOT_TOKEN'' = Some t \<and> t \<noteq> [])
          \<and> (\<exists>c. environ ''CHAT_ID'' = Some c \<and> c \<noteq> []))"
proof -
  obtain evs st where p: "process environ acts = Inr (evs, st)"
    and c: "CHAT_ID st = environ ''CHAT_ID''"
    and b: "bot_inst st = (if truthy_str (environ ''BOT_TOKEN'')
                           then map_option Bot (environ ''BOT_TOKEN'') else None)"
    using process_state [of environ acts] by blast
  have r: "request_after environ acts Health =
      Inr \<lparr> status_code = 200, content = Health_body (health_check st) \<rparr>"
    using p by (simp add: request_after_eq serve_def)
  have tb: "truthy_bot (bot_inst st) = (\<exists>t. environ ''BOT_TOKEN'' = Some t \<and> t \<noteq> [])"
    unfolding b by (cases "environ ''BOT_TOKEN''") simp_all
  have tc: "truthy_str (CHAT_ID st) = (\<exists>c. environ ''CHAT_ID'' = Some c \<and> c \<noteq> [])"
    unfolding c by (cases "environ ''CHAT_ID''") simp_all
  have "telegram_configured (health_check st) =
      ((\<exists>t. environ ''BOT_TOKEN'' = Some t \<and> t \<noteq> [])
       \<and> (\<exists>c. environ ''CHAT_ID'' = Some c \<and> c \<noteq> []))"
    by (simp add: health_check_def tb tc)
  with r show ?thesis by blast
qed

theorem health_telegram_configured_witness:
  "\<exists>h. request_after [''BOT_TOKEN'' \<mapsto> ''123:abc'', ''CHAT_ID'' \<mapsto> ''42'']
          [Tick (\<lambda>b c t. Some (Exception ''Timed out''))] Health =
         Inr \<lparr> status_code = 200, content = Health_body h \<rparr>
     \<and> telegram_configured h = True"
  using health_telegram_configured
    [of "[''BOT_TOKEN'' \<mapsto> ''123:abc'', ''CHAT_ID'' \<mapsto> ''42'']"
        "[Tick (\<lambda>b c t. Some (Exception ''Timed out''))]"]
  by simp

text \<open>
  The claim as stated fails where a variable is set to the empty string: both are set,
  and the route reports false.
\<close>

theorem health_empty_token_counterexample:
  "[''BOT_TOKEN'' \<mapsto> [], ''CHAT_ID'' \<mapsto> ''42''] ''BOT_TOKEN'' = Some []
   \<and> [''BOT_TOKEN'' \<mapsto> [], ''CHAT_ID'' \<mapsto> ''42''] ''CHAT_ID'' = Some ''42''
   \<and> request_after [''BOT_TOKEN'' \<mapsto> [], ''CHAT_ID'' \<mapsto> ''42''] [] Health =
       Inr \<lparr> status_code = 200,
             content = Health_body \<lparr> status = ''healthy'', telegram_configured = False,
                                     scheduler_running = True \<rparr> \<rparr>"
  by (simp add: request_after_def process_def module_init_eq serve_def health_check_def
      running_def)

text \<open>
  C8: \<open>GET /health\<close> reports \<open>scheduler_running\<close> true in every state the process reaches
  after start-up as long as the shutdown event has not happened, and false in every
  state after it.
\<close>

theorem health_scheduler_running:
  "\<exists>h. request_after environ acts Health =
         Inr \<lparr> status_code = 200, content = Health_body h \<rparr>
     \<and> scheduler_running h = (Shutdown \<notin> set acts)"
proof -
  obtain evs st where p: "process environ acts = Inr (evs, st)"
    and s: "running (scheduler st) = (Shutdown \<notin> set acts)"
    using process_state [of environ acts] by blast
  have "request_after environ acts Health =
      Inr \<lparr> status_code = 200, content = Health_body (health_check st) \<rparr>"
    using p by (simp add: request_after_eq serve_def)
  moreover have "scheduler_running (health_check st) = (Shutdown \<notin> set acts)"
    by (simp add: health_check_def s)
  ultimately show ?thesis by blast
qed

theorem health_scheduler_running_witness:
  "(\<exists>h. request_after Map.empty [Request Root, Tick (\<lambda>b c t. None)] Health =
          Inr \<lparr> status_code = 200, content = Health_body h \<rparr>
      \<and> scheduler_running h = True)
   \<and> (\<exists>h. request_after Map.empty [Request Root, Shutdown, Request Health] Health =
          Inr \<lparr> status_code = 200, content = Health_body h \<rparr>
      \<and> scheduler_running h = False)"
  using health_scheduler_running [of Map.empty "[Request Root, Tick (\<lambda>b c t. None)]"]
    health_scheduler_running [of Map.empty "[Request Root, Shutdown, Request Health]"]
  by simp

subsection \<open>Requests do not change the process\<close>

lemma run_requests: "run st (map Request rs) = ([], st)"
  by (induction rs) (simp_all add: serve_state)

lemma run_append:
  "run st (as @ bs) =
     (fst (run st as) @ fst (run (snd (run st as)) bs), snd (run (snd (run st as)) bs))"
  by (induction as arbitrary: st) (simp_all split: prod.splits)

text \<open>
  C9: each of the three routes returns the state it was given, so a second request on
  that state gets the same response; and a request that arrives after any number of
  further requests gets the response it would have had before them.
\<close>

theorem read_routes_stateless:
  "snd (serve st r) = st
   \<and> fst (serve (snd (serve st r)) r) = fst (serve st r)
   \<and> run st (map Request rs) = ([], st)
   \<and> request_after environ (acts @ map Request rs) r = request_after environ acts r"
proof -
  have "process environ (acts @ map Request rs) = process environ acts"
    by (simp add: process_def run_append run_requests split: sum.splits prod.splits)
  then show ?thesis
    by (simp add: serve_state run_requests request_after_def)
qed

subsection \<open>An empty token\<close>

lemma try_body_token:
  "try_body (st \<lparr> BOT_TOKEN := x \<rparr>) send = try_body st send"
  by (simp add: try_body_def Let_def split: option.splits)

lemma send_signal_token:
  "send_signal (st \<lparr> BOT_TOKEN := x \<rparr>) send = send_signal st send"
proof -
  have "bot_inst (st \<lparr> BOT_TOKEN := x \<rparr>) = bot_inst st"
    and "CHAT_ID (st \<lparr> BOT_TOKEN := x \<rparr>) = CHAT_ID st"
    by simp_all
  then show ?thesis
    unfolding send_signal_def try_body_token by (simp only:)
qed

lemma step_token:
  "step (st \<lparr> BOT_TOKEN := x \<rparr>) a = (fst (step st a), (snd (step st a)) \<lparr> BOT_TOKEN := x \<rparr>)"
  by (cases a) (simp_all add: serve_state send_signal_token shutdown_event_cases)

lemma run_token:
  "run (st \<lparr> BOT_TOKEN := x \<rparr>) acts = (fst (run st acts), (snd (run st acts)) \<lparr> BOT_TOKEN := x \<rparr>)"
proof (induction acts arbitrary: st)
  case Nil
  show ?case by simp
next
  case (Cons a as)
  show ?case
    using Cons.IH [of "snd (step st a)"]
    by (simp add: step_token split: prod.splits)
qed

text \<open>
  C10: with \<open>BOT_TOKEN\<close> set to the empty string no bot is built, every call of
  \<open>send_signal\<close> only logs the warning, \<open>GET /health\<close> reports \<open>telegram_configured\<close>
  false, and the process produces the events and reaches the state it would with the
  variable absent, the stored value of \<open>BOT_TOKEN\<close> apart.
\<close>

theorem empty_token_as_absent:
  assumes "environ ''BOT_TOKEN'' = Some []"
  shows "\<exists>evs st h. process environ acts = Inr (evs, st)
           \<and> bot_inst st = None
           \<and> send_signal st send =
               ([Log WARNING ''Telegram bot or CHAT_ID not configured''], Inr ())
           \<and> request_after environ acts Health =
               Inr \<lparr> status_code = 200, content = Health_body h \<rparr>
           \<and> telegram_configured h = False
           \<and> process (environ(''BOT_TOKEN'' := None)) acts =
               Inr (evs, st \<lparr> BOT_TOKEN := None \<rparr>)"
proof -
  obtain evs st where p: "process environ acts = Inr (evs, st)"
    and b: "bot_inst st = (if truthy_str (environ ''BOT_TOKEN'')
                           then map_option Bot (environ ''BOT_TOKEN'') else None)"
    using process_state [of environ acts] by blast
  from assms b have none: "bot_inst st = None"
    by simp
  have s: "send_signal st send =
      ([Log WARNING ''Telegram bot or CHAT_ID not configured''], Inr ())"
    by (simp add: send_signal_unconfigured none)
  have r: "request_after environ acts Health =
      Inr \<lparr> status_code = 200, content = Health_body (health_check st) \<rparr>"
    using p by (simp add: request_after_eq serve_def)
  have t: "telegram_configured (health_check st) = False"
    by (simp add: health_check_def none)
  obtain evs0 st0 where i: "module_init environ = Inr (evs0, st0)"
    by (simp add: module_init_eq)
  have i': "module_init (environ(''BOT_TOKEN'' := None)) = Inr (evs0, st0 \<lparr> BOT_TOKEN := None \<rparr>)"
    using i assms by (auto simp add: module_init_eq)
  have "process (environ(''BOT_TOKEN'' := None)) acts = Inr (evs, st \<lparr> BOT_TOKEN := None \<rparr>)"
    using p by (auto simp add: process_def i i' run_token split: prod.splits)
  with p none s r t show ?thesis by blast
qed

theorem empty_token_as_absent_witness:
  "\<exists>evs st h. process [''BOT_TOKEN'' \<mapsto> [], ''CHAT_ID'' \<mapsto> ''42''] [Request Health] = Inr (evs, st)
     \<and> bot_inst st = None
     \<and> send_signal st (\<lambda>b c t. None) =
         ([Log WARNING ''Telegram bot or CHAT_ID not configured''], Inr ())
     \<and> request_after [''BOT_TOKEN'' \<mapsto> [], ''CHAT_ID'' \<mapsto> ''42''] [Request Health] Health =
         Inr \<lparr> status_code = 200, content = Health_body h \<rparr>
     \<and> telegram_configured h = False
     \<and> process [''CHAT_ID'' \<mapsto> ''42''] [Request Health] = Inr (evs, st \<lparr> BOT_TOKEN := None \<rparr>)"
proof -
  have e: "[''BOT_TOKEN'' \<mapsto> [], ''CHAT_ID'' \<mapsto> ''42''](''BOT_TOKEN'' := None)
      = [''CHAT_ID'' \<mapsto> ''42'']"
    by (rule ext) simp
  show ?thesis
    using empty_token_as_absent
      [of "[''BOT_TOKEN'' \<mapsto> [], ''CHAT_ID'' \<mapsto> ''42'']" "[Request Health]" "\<lambda>b c t. None"]
    by (simp add: e)
qed

subsection \<open>The layout of the message\<close>

lemma foldl_reason_lines:
  "foldl (\<lambda>msg r. msg @ ''- '' @ r @ ''\<newline>'') acc rs = acc @ unlines (map (\<lambda>r. ''- '' @ r) rs)"
  by (induction rs arbitrary: acc) (simp_all add: unlines_def)

lemma unlines_append: "unlines (xs @ ys) = unlines xs @ unlines ys"
  by (simp add: unlines_def)

lemma format_message_lines:
  "format_message s =
     unlines ([''GOLD SIGNAL'', [], ''Bias: '' @ bias s,
               ''Confidence: '' @ str_int (confidence s) @ ''%'', [], ''Reasons:'']
              @ map (\<lambda>r. ''- '' @ r) (reasons s))"
proof -
  have "format_message s =
      (''GOLD SIGNAL\<newline>\<newline>'' @ ''Bias: '' @ bias s @ ''\<newline>''
       @ ''Confidence: '' @ str_int (confidence s) @ ''%\<newline>\<newline>'' @ ''Reasons:\<newline>'')
      @ unlines (map (\<lambda>r. ''- '' @ r) (reasons s))"
    unfolding format_message_def Let_def foldl_reason_lines by (simp only: append_assoc)
  moreover have "unlines [''GOLD SIGNAL'', [], ''Bias: '' @ bias s,
        ''Confidence: '' @ str_int (confidence s) @ ''%'', [], ''Reasons:''] =
      ''GOLD SIGNAL\<newline>\<newline>'' @ ''Bias: '' @ bias s @ ''\<newline>''
      @ ''Confidence: '' @ str_int (confidence s) @ ''%\<newline>\<newline>'' @ ''Reasons:\<newline>''"
    by (simp add: unlines_def)
  ultimately show ?thesis
    by (simp only: unlines_append)
qed

lemma str_int_70: "str_int 70 = ''70''"
  by code_simp

text \<open>
  C6, as amended: when both variables are set to non-empty values, the text that the
  notifier passes to the client is made of these lines, each ended by a newline: the
  title \<open>GOLD SIGNAL\<close>, an empty line, the bias line, the confidence line, an empty
  line, the line \<open>Reasons:\<close>, then one line per reason of the signal, a dash and a
  space before each, in the order of the record.
\<close>

theorem notifier_message_layout:
  assumes "environ ''BOT_TOKEN'' = Some t" and "t \<noteq> []"
    and "environ ''CHAT_ID'' = Some c" and "c \<noteq> []"
  shows "format_message s =
           unlines ([''GOLD SIGNAL'', [], ''Bias: '' @ bias s,
                     ''Confidence: '' @ str_int (confidence s) @ ''%'', [], ''Reasons:'']
                    @ map (\<lambda>r. ''- '' @ r) (reasons s))
         \<and> (\<exists>evs st rest. process environ acts = Inr (evs, st)
               \<and> fst (send_signal st send) =
                   [Call_gold_signal,
                    Call_send_message (Bot t) (Some c) (format_message (gold_signal ()))]
                   @ rest)"
proof -
  obtain evs st where p: "process environ acts = Inr (evs, st)"
    and c: "CHAT_ID st = environ ''CHAT_ID''"
    and b: "bot_inst st = (if truthy_str (environ ''BOT_TOKEN'')
                           then map_option Bot (environ ''BOT_TOKEN'') else None)"
    using process_state [of environ acts] by blast
  from assms b c have "bot_inst st = Some (Bot t)" and "CHAT_ID st = Some c"
    by simp_all
  with assms obtain rest where "fst (send_signal st send) =
      [Call_gold_signal, Call_send_message (Bot t) (Some c) (format_message (gold_signal ()))]
      @ rest"
    using send_signal_first_events [of st "Bot t" send] by auto
  with p show ?thesis
    using format_message_lines [of s] by blast
qed

theorem notifier_message_layout_witness:
  "format_message (gold_signal ()) =
     ''GOLD SIGNAL\<newline>\<newline>Bias: BUY\<newline>Confidence: 70%\<newline>\<newline>Reasons:\<newline>- Inflation high\<newline>- Central banks buying gold\<newline>- ETF inflows positive\<newline>- Geopolitical risk rising\<newline>''
   \<and> (\<exists>evs st rest.
         process [''BOT_TOKEN'' \<mapsto> ''123:abc'', ''CHAT_ID'' \<mapsto> ''42''] [] = Inr (evs, st)
         \<and> fst (send_signal st (\<lambda>b c t. None)) =
             [Call_gold_signal,
              Call_send_message (Bot ''123:abc'') (Some ''42'') (format_message (gold_signal ()))]
             @ rest)"
proof -
  have "[''BOT_TOKEN'' \<mapsto> ''123:abc'', ''CHAT_ID'' \<mapsto> ''42''] ''BOT_TOKEN'' = Some ''123:abc''"
    and "''123:abc'' \<noteq> []"
    and "[''BOT_TOKEN'' \<mapsto> ''123:abc'', ''CHAT_ID'' \<mapsto> ''42''] ''CHAT_ID'' = Some ''42''"
    and "''42'' \<noteq> []"
    by simp_all
  from notifier_message_layout [OF this, of "gold_signal ()" "[]" "\<lambda>b c t. None"]
  have m: "format_message (gold_signal ()) =
        unlines ([''GOLD SIGNAL'', [], ''Bias: '' @ bias (gold_signal ()),
                  ''Confidence: '' @ str_int (confidence (gold_signal ())) @ ''%'', [],
                  ''Reasons:'']
                 @ map (\<lambda>r. ''- '' @ r) (reasons (gold_signal ())))"
    and e: "\<exists>evs st rest.
        process [''BOT_TOKEN'' \<mapsto> ''123:abc'', ''CHAT_ID'' \<mapsto> ''42''] [] = Inr (evs, st)
        \<and> fst (send_signal st (\<lambda>b c t. None)) =
            [Call_gold_signal,
             Call_send_message (Bot ''123:abc'') (Some ''42'') (format_message (gold_signal ()))]
            @ rest"
    by blast+
  have "format_message (gold_signal ()) =
      ''GOLD SIGNAL\<newline>\<newline>Bias: BUY\<newline>Confidence: 70%\<newline>\<newline>Reasons:\<newline>- Inflation high\<newline>- Central banks buying gold\<newline>- ETF inflows positive\<newline>- Geopolitical risk rising\<newline>''"
    unfolding m by (simp add: unlines_def gold_signal_def str_int_70)
  with e show ?thesis by blast
qed

text \<open>
  The layout of the claim as stated (title, bias, confidence, empty line, reasons) is
  not the text the notifier builds: that text has an empty line after the title and
  the line \<open>Reasons:\<close> before the reasons.
\<close>

theorem message_layout_counterexample:
  "format_message (gold_signal ()) \<noteq>
     unlines (spec_message_lines ''GOLD SIGNAL'' (gold_signal ()))"
  by (simp add: format_message_lines spec_message_lines_def unlines_def gold_signal_def)

subsection \<open>The dashboard\<close>

lemma page_1_end: "suffix ''background-color: '' page_1"
  by code_simp

lemma page_2_begin: "prefix '';'' page_2"
  by code_simp

lemma home_html_color:
  "sublist (''background-color: '' @ color_of s @ '';'') (home_html s b cid)"
proof -
  obtain p where p: "page_1 = p @ ''background-color: ''"
    using page_1_end by (auto elim: suffixE)
  obtain q where q: "page_2 = '';'' @ q"
    using page_2_begin by (auto elim: prefixE)
  obtain rest where "home_html s b cid = page_1 @ color_of s @ page_2 @ rest"
    by (simp add: home_html_def Let_def)
  then have "home_html s b cid =
      p @ (''background-color: '' @ color_of s @ '';'') @ (q @ rest)"
    by (simp add: p q)
  then show ?thesis
    by (simp only: sublist_appendI)
qed

lemma home_html_bias: "sublist (bias s) (home_html s b cid)"
proof -
  obtain front rest where "home_html s b cid = front @ bias s @ rest"
    unfolding home_html_def Let_def
    by (metis append.assoc)
  then show ?thesis
    by (simp only: sublist_appendI)
qed

text \<open>
  C7: the colour of the page is green for the bias BUY, red for SELL and orange for
  any other bias, and the page is styled with that colour; the page served at
  \<open>GET /\<close>, whose signal is the hardcoded one, contains \<open>BUY\<close> and the green style.
\<close>

theorem dashboard_color:
  "color_of s =
     (if bias s = ''BUY'' then ''green'' else if bias s = ''SELL'' then ''red'' else ''orange'')
   \<and> sublist (''background-color: '' @ color_of s @ '';'') (home_html s b cid)
   \<and> (\<exists>page. request_after environ acts Root =
                 Inr \<lparr> status_code = 200, content = Html_body page \<rparr>
          \<and> sublist ''BUY'' page
          \<and> sublist ''background-color: green;'' page)"
proof -
  obtain evs st where p: "process environ acts = Inr (evs, st)"
    using process_state [of environ acts] by blast
  have r: "request_after environ acts Root =
      Inr \<lparr> status_code = 200, content = Html_body (home st) \<rparr>"
    using p by (simp add: request_after_eq serve_def)
  have g: "bias (gold_signal ()) = ''BUY''" "color_of (gold_signal ()) = ''green''"
    by (simp_all add: gold_signal_def color_of_def)
  have "sublist ''BUY'' (home st)"
    using home_html_bias [of "gold_signal ()" "bot_inst st" "CHAT_ID st"]
    by (simp add: home_def g)
  moreover have "sublist ''background-color: green;'' (home st)"
    using home_html_color [of "gold_signal ()" "bot_inst st" "CHAT_ID st"]
    by (simp add: home_def g)
  ultimately show ?thesis
    using r home_html_color [of s b cid] by (simp add: color_of_def)
qed

theorem dashboard_color_witness:
  "color_of \<lparr> bias = ''SELL'', confidence = 55, reasons = [''Rates rising''] \<rparr> = ''red''
   \<and> sublist ''background-color: red;''
       (home_html \<lparr> bias = ''SELL'', confidence = 55, reasons = [''Rates rising''] \<rparr> None None)
   \<and> color_of \<lparr> bias = ''HOLD'', confidence = 55, reasons = [] \<rparr> = ''orange''
   \<and> (\<exists>page. request_after Map.empty [] Root =
                 Inr \<lparr> status_code = 200, content = Html_body page \<rparr>
          \<and> sublist ''BUY'' page
          \<and> sublist ''background-color: green;'' page)"
proof -
  let ?sell = "\<lparr> bias = ''SELL'', confidence = 55, reasons = [''Rates rising''] \<rparr>"
  let ?hold = "\<lparr> bias = ''HOLD'', confidence = 55, reasons = [] \<rparr>"
  have c: "color_of ?sell = ''red''" "color_of ?hold = ''orange''"
    using dashboard_color [of ?sell None None Map.empty "[]"]
      dashboard_color [of ?hold None None Map.empty "[]"]
    by simp_all
  have "sublist (''background-color: '' @ color_of ?sell @ '';'') (home_html ?sell None None)"
    and p: "\<exists>page. request_after Map.empty [] Root =
                 Inr \<lparr> status_code = 200, content = Html_body page \<rparr>
          \<and> sublist ''BUY'' page
          \<and> sublist ''background-color: green;'' page"
    using dashboard_color [of ?sell None None Map.empty "[]"] by blast+
  then have "sublist ''background-color: red;'' (home_html ?sell None None)"
    unfolding c by simp
  with c p show ?thesis by blast
qed

end
